theory Spec2Isabelle
  imports Complex_Main
begin

section \<open>Python values, errors and sequencing\<close>

text \<open>
  The adapter in \<^verbatim>\<open>scripts/morse/environment.py\<close> is Python: its values are
  dynamically typed. A value is an integer, a float, a string, a sequence (a list or a
  tuple: indexing and \<^verbatim>\<open>len\<close> do not tell them apart) or an SO(3) state object
  with the attributes \<^verbatim>\<open>w\<close>, \<^verbatim>\<open>x\<close>, \<^verbatim>\<open>y\<close>, \<^verbatim>\<open>z\<close>. A real-vector
  state component is a sequence of floats. Floats are taken as real numbers: rounding,
  infinities and NaN are outside this model.
\<close>

datatype pyval =
    PyInt int
  | PyFloat real
  | PyStr string
  | PySeq "pyval list"
  | SO3State real real real real

text \<open>Every \<^verbatim>\<open>raise\<close> of the source and of the built-ins it calls is a value.\<close>

datatype error =
    IndexError
  | TypeError
  | AttributeError
  | UnboundLocalError
  | OSError
  | SyntaxError

definition bindE :: "error + 'a \<Rightarrow> ('a \<Rightarrow> error + 'b) \<Rightarrow> error + 'b" where
  "bindE m f = (case m of Inl e \<Rightarrow> Inl e | Inr v \<Rightarrow> f v)"

text \<open>\<^verbatim>\<open>v[i]\<close> for a non-negative index: sequences and strings are indexable.\<close>

definition getitem :: "pyval \<Rightarrow> nat \<Rightarrow> error + pyval" where
  "getitem v i =
     (case v of
        PySeq xs \<Rightarrow> if i < length xs then Inr (xs ! i) else Inl IndexError
      | PyStr s \<Rightarrow> if i < length s then Inr (PyStr [s ! i]) else Inl IndexError
      | _ \<Rightarrow> Inl TypeError)"

text \<open>\<^verbatim>\<open>len(v)\<close>.\<close>

definition len :: "pyval \<Rightarrow> error + nat" where
  "len v =
     (case v of
        PySeq xs \<Rightarrow> Inr (length xs)
      | PyStr s \<Rightarrow> Inr (length s)
      | _ \<Rightarrow> Inl TypeError)"

text \<open>The numeric value of an operand of \<^verbatim>\<open>-\<close> and \<^verbatim>\<open>*\<close>.\<close>

definition num :: "pyval \<Rightarrow> error + real" where
  "num v =
     (case v of
        PyInt n \<Rightarrow> Inr (of_int n)
      | PyFloat r \<Rightarrow> Inr r
      | _ \<Rightarrow> Inl TypeError)"

text \<open>An index computed as \<^verbatim>\<open>4*crit[0]+k\<close> has to be an integer.\<close>

definition as_int :: "pyval \<Rightarrow> error + int" where
  "as_int v = (case v of PyInt n \<Rightarrow> Inr n | _ \<Rightarrow> Inl TypeError)"

text \<open>
  \<^verbatim>\<open>sum(f(i) for i in range(n))\<close>: the generator is consumed in order, the first
  error ends it.
\<close>

fun py_sum :: "(nat \<Rightarrow> error + real) \<Rightarrow> nat list \<Rightarrow> real \<Rightarrow> error + real" where
  "py_sum f [] acc = Inr acc"
| "py_sum f (i # is) acc =
     (case f i of Inl e \<Rightarrow> Inl e | Inr v \<Rightarrow> py_sum f is (acc + v))"

section \<open>The goal: \<^verbatim>\<open>MyGoal\<close>\<close>

text \<open>
  The planner's state is a compound state: component \<open>4*b + 0\<close>, \<open>4*b + 1\<close> and
  \<open>4*b + 2\<close> are the position, linear velocity and angular velocity of body \<open>b\<close>
  (real vectors), component \<open>4*b + 3\<close> its orientation (an SO(3) state). The
  source does not say what reading or writing a component or a slot that does not exist
  does (the state is an object of the planning library); here it is a failure, the
  \<open>IndexError\<close> of a Python sequence.
\<close>

type_synonym state = "pyval list"

definition state_get :: "state \<Rightarrow> int \<Rightarrow> error + pyval" where
  "state_get st i =
     (if 0 \<le> i \<and> nat i < length st then Inr (st ! nat i) else Inl IndexError)"

text \<open>\<^verbatim>\<open>(quat.w, quat.x, quat.y, quat.z)\<close>.\<close>

definition quat_tuple :: "pyval \<Rightarrow> error + pyval" where
  "quat_tuple q =
     (case q of
        SO3State w x y z \<Rightarrow> Inr (PySeq [PyFloat w, PyFloat x, PyFloat y, PyFloat z])
      | _ \<Rightarrow> Inl AttributeError)"

text \<open>
  \<^verbatim>\<open>
  def dist(self, s1, s2):
      return sum((s1[0][i]-s2[0][i])**2 for i in range(3)) + \
          (1 - sum(s1[3][i]*s2[3][i] for i in range(4))**2)
  \<close>
\<close>

definition pos_term :: "pyval \<Rightarrow> pyval \<Rightarrow> nat \<Rightarrow> error + real" where
  "pos_term s1 s2 i =
     bindE (getitem s1 0) (\<lambda>p1. bindE (getitem p1 i) (\<lambda>a.
     bindE (getitem s2 0) (\<lambda>p2. bindE (getitem p2 i) (\<lambda>b.
     bindE (num a) (\<lambda>x. bindE (num b) (\<lambda>y. Inr ((x - y)\<^sup>2)))))))"

definition quat_term :: "pyval \<Rightarrow> pyval \<Rightarrow> nat \<Rightarrow> error + real" where
  "quat_term s1 s2 i =
     bindE (getitem s1 3) (\<lambda>q1. bindE (getitem q1 i) (\<lambda>a.
     bindE (getitem s2 3) (\<lambda>q2. bindE (getitem q2 i) (\<lambda>b.
     bindE (num a) (\<lambda>x. bindE (num b) (\<lambda>y. Inr (x * y)))))))"

definition dist_Py :: "pyval \<Rightarrow> pyval \<Rightarrow> error + real" where
  "dist_Py s1 s2 =
     bindE (py_sum (pos_term s1 s2) [0, 1, 2] 0) (\<lambda>p.
     bindE (py_sum (quat_term s1 s2) [0, 1, 2, 3] 0) (\<lambda>q.
     Inr (p + (1 - q\<^sup>2))))"

text \<open>
  \<^verbatim>\<open>
  def isSatisfied_Py(self, state):
      self.distance = 0
      for crit in self.criteria:
          quat = state[4*crit[0]+3]
          stateTup = (state[4*crit[0]+0], state[4*crit[0]+1],
                      state[4*crit[0]+2], (quat.w, quat.x, quat.y, quat.z))
          self.distance += self.dist(stateTup, crit[1])
      if self.distance > len(crit)*0.1:
          return False
      return True
  \<close>
  The goal object holds the criteria and the distance of the last evaluation.
\<close>

record goal =
  criteria :: "pyval list"
  distance :: real

text \<open>\<^verbatim>\<open>state[4*crit[0]+k]\<close>.\<close>

definition body_block :: "state \<Rightarrow> pyval \<Rightarrow> int \<Rightarrow> error + pyval" where
  "body_block st crit k =
     bindE (getitem crit 0) (\<lambda>c. bindE (as_int c) (\<lambda>b. state_get st (4 * b + k)))"

text \<open>The body of the loop, up to the value added to \<^verbatim>\<open>self.distance\<close>.\<close>

definition crit_dist :: "state \<Rightarrow> pyval \<Rightarrow> error + real" where
  "crit_dist st crit =
     bindE (body_block st crit 3) (\<lambda>quat.
     bindE (body_block st crit 0) (\<lambda>p.
     bindE (body_block st crit 1) (\<lambda>l.
     bindE (body_block st crit 2) (\<lambda>a.
     bindE (quat_tuple quat) (\<lambda>q.
     bindE (getitem crit 1) (\<lambda>target.
     dist_Py (PySeq [p, l, a, q]) target))))))"

text \<open>
  The loop over the criteria: the distance accumulated so far is kept when an iteration
  raises, as the attribute is.
\<close>

fun crit_loop :: "state \<Rightarrow> pyval list \<Rightarrow> real \<Rightarrow> error option \<times> real" where
  "crit_loop st [] d = (None, d)"
| "crit_loop st (crit # cs) d =
     (case crit_dist st crit of
        Inl e \<Rightarrow> (Some e, d)
      | Inr x \<Rightarrow> crit_loop st cs (d + x))"

text \<open>
  After the loop \<^verbatim>\<open>crit\<close> is the last criterion; with no criterion it was never
  bound, and reading it raises \<open>UnboundLocalError\<close>.
\<close>

definition isSatisfied_Py :: "goal \<Rightarrow> state \<Rightarrow> (error + bool) \<times> goal" where
  "isSatisfied_Py g st =
     (case crit_loop st (criteria g) 0 of
        (Some e, d) \<Rightarrow> (Inl e, g\<lparr>distance := d\<rparr>)
      | (None, d) \<Rightarrow>
          (case criteria g of
             [] \<Rightarrow> (Inl UnboundLocalError, g\<lparr>distance := d\<rparr>)
           | _ # _ \<Rightarrow>
               (case len (last (criteria g)) of
                  Inl e \<Rightarrow> (Inl e, g\<lparr>distance := d\<rparr>)
                | Inr n \<Rightarrow>
                    (if d > real n * 0.1 then (Inr False, g\<lparr>distance := d\<rparr>)
                     else (Inr True, g\<lparr>distance := d\<rparr>)))))"

section \<open>The environment: \<^verbatim>\<open>MyEnvironment\<close>\<close>

subsection \<open>The two sockets\<close>

text \<open>
  The state socket carries the request/response calls. What the simulator does with the
  next request is not decided by the adapter, so the socket holds a script: the send
  fails, the receive fails, the reply is text that \<^verbatim>\<open>eval\<close> rejects, or the reply
  decodes to a value. An empty script is a closed connection: \<^verbatim>\<open>recv\<close> returns no
  bytes and \<^verbatim>\<open>eval\<close> rejects them. The requests that went out are logged.
\<close>

datatype reply = SendFails | RecvFails | Undecodable | Decodes pyval

record rpc_socket =
  requests :: "string list"
  replies :: "reply list"

text \<open>
  \<^verbatim>\<open>sockS.sendall(cmd.encode())\<close> followed by \<^verbatim>\<open>eval(sockS.recv(16384))\<close>: the
  body of the \<^verbatim>\<open>try\<close> in \<^verbatim>\<open>call\<close>.
\<close>

definition exchange :: "rpc_socket \<Rightarrow> string \<Rightarrow> (error + pyval) \<times> rpc_socket" where
  "exchange s cmd =
     (case replies s of
        [] \<Rightarrow> (Inl SyntaxError, s\<lparr>requests := requests s @ [cmd]\<rparr>)
      | SendFails # rs \<Rightarrow> (Inl OSError, s\<lparr>replies := rs\<rparr>)
      | RecvFails # rs \<Rightarrow> (Inl OSError, s\<lparr>requests := requests s @ [cmd], replies := rs\<rparr>)
      | Undecodable # rs \<Rightarrow>
          (Inl SyntaxError, s\<lparr>requests := requests s @ [cmd], replies := rs\<rparr>)
      | Decodes v # rs \<Rightarrow> (Inr v, s\<lparr>requests := requests s @ [cmd], replies := rs\<rparr>))"

text \<open>
  The control socket is fire-and-forget. A command is the text
  \<^verbatim>\<open>'id %s %s %s\n' % (controller[0], controller[1], con[i:i+controller[2]])\<close>, kept
  here as its three parts. The socket accepts every command (\<open>budget = None\<close>) or
  only the next \<open>k\<close> ones (\<open>budget = Some k\<close>), after which \<^verbatim>\<open>sendall\<close> raises.
\<close>

datatype command = ChannelCommand string string "real list"

record cmd_socket =
  sent :: "command list"
  budget :: "nat option"

definition sendall :: "cmd_socket \<Rightarrow> command \<Rightarrow> error + cmd_socket" where
  "sendall s m =
     (case budget s of
        None \<Rightarrow> Inr (s\<lparr>sent := sent s @ [m]\<rparr>)
      | Some 0 \<Rightarrow> Inl OSError
      | Some (Suc k) \<Rightarrow> Inr (s\<lparr>sent := sent s @ [m], budget := Some k\<rparr>))"

subsection \<open>The environment object\<close>

text \<open>
  \<open>cdesc\<close> is the control description: the control dimension \<^verbatim>\<open>cdesc[0]\<close> and the
  channels \<^verbatim>\<open>cdesc[1:]\<close>, each a tuple of two names and the number of control values
  the channel takes. \<open>con\<close> is the cache of the last control, \<open>rigidBodies\<close> (the
  attribute \<^verbatim>\<open>rigidBodies_\<close>) the number of bodies; the planner's state has
  \<open>4 * rigidBodies\<close> components.
\<close>

type_synonym controller = "string \<times> string \<times> nat"

record env =
  sockS :: rpc_socket
  sockC :: cmd_socket
  simRunning :: bool
  cdesc :: "nat \<times> controller list"
  con :: "real list"
  rigidBodies :: nat

text \<open>
  \<^verbatim>\<open>
  def call(self, cmd):
      try:
          self.sockS.sendall(cmd.encode())
          return eval(self.sockS.recv(16384))
      except:
          self.simRunning = False
          raise
  \<close>
\<close>

definition call :: "env \<Rightarrow> string \<Rightarrow> (error + pyval) \<times> env" where
  "call e cmd =
     (case exchange (sockS e) cmd of
        (Inl err, s) \<Rightarrow> (Inl err, e\<lparr>sockS := s, simRunning := False\<rparr>)
      | (Inr v, s) \<Rightarrow> (Inr v, e\<lparr>sockS := s\<rparr>))"

subsection \<open>\<^verbatim>\<open>applyControl\<close>\<close>

text \<open>\<^verbatim>\<open>xs[i:j]\<close> for non-negative \<open>i\<close> and \<open>j\<close>: out-of-range bounds are clipped.\<close>

definition slice :: "'a list \<Rightarrow> nat \<Rightarrow> nat \<Rightarrow> 'a list" where
  "slice xs i j = take (j - i) (drop i xs)"

text \<open>
  \<^verbatim>\<open>
  def applyControl(self, control):
      con = [control[i] for i in range(len(control))]
      if self.con != con:
          self.con = con
          i = 0
          for controller in self.cdesc[1:]:
              req = 'id %s %s %s\n' % (controller[0], controller[1], con[i:i+controller[2]])
              i += controller[2]
              self.sockC.sendall(req.encode())
  \<close>
  The local \<^verbatim>\<open>con\<close> is the control as a list; the loop takes it as \<open>c\<close>.
\<close>

fun controller_loop :: "controller list \<Rightarrow> real list \<Rightarrow> nat \<Rightarrow> env \<Rightarrow> (error + unit) \<times> env" where
  "controller_loop [] c i e = (Inr (), e)"
| "controller_loop (controller # rest) c i e =
     (case controller of (c0, c1, c2) \<Rightarrow>
        (case sendall (sockC e) (ChannelCommand c0 c1 (slice c i (i + c2))) of
           Inl err \<Rightarrow> (Inl err, e)
         | Inr s \<Rightarrow> controller_loop rest c (i + c2) (e\<lparr>sockC := s\<rparr>)))"

definition applyControl :: "env \<Rightarrow> real list \<Rightarrow> (error + unit) \<times> env" where
  "applyControl e control =
     (if con e \<noteq> control
      then controller_loop (snd (cdesc e)) control 0 (e\<lparr>con := control\<rparr>)
      else (Inr (), e))"

subsection \<open>\<^verbatim>\<open>worldStep\<close>\<close>

text \<open>
  \<^verbatim>\<open>round(x)\<close> of Python 3 on a float: the nearest integer, a tie going to the even
  one.
\<close>

definition py_round :: "real \<Rightarrow> int" where
  "py_round x =
     (let f = \<lfloor>x\<rfloor>; r = x - of_int f in
      if r < 1 / 2 then f
      else if 1 / 2 < r then f + 1
      else if even f then f else f + 1)"



subsection \<open>\<^verbatim>\<open>readState\<close>\<close>

text \<open>\<^verbatim>\<open>for obj in v\<close>: a sequence yields its items, a string its characters.\<close>

definition py_iter :: "pyval \<Rightarrow> error + pyval list" where
  "py_iter v =
     (case v of
        PySeq xs \<Rightarrow> Inr xs
      | PyStr s \<Rightarrow> Inr (map (\<lambda>c. PyStr [c]) s)
      | _ \<Rightarrow> Inl TypeError)"

text \<open>
  \<^verbatim>\<open>state[i][k] = v\<close>: component \<open>i\<close> has to be a real vector with a slot \<open>k\<close>,
  and \<open>v\<close> a number.
\<close>

definition setitem_vec :: "state \<Rightarrow> nat \<Rightarrow> nat \<Rightarrow> pyval \<Rightarrow> error + state" where
  "setitem_vec st i k v =
     (if i < length st then
        (case st ! i of
           PySeq xs \<Rightarrow>
             (if k < length xs then
                (case num v of
                   Inl e \<Rightarrow> Inl e
                 | Inr r \<Rightarrow> Inr (st[i := PySeq (xs[k := PyFloat r])]))
              else Inl IndexError)
         | _ \<Rightarrow> Inl TypeError)
      else Inl IndexError)"

text \<open>
  \<^verbatim>\<open>state[i].w = v\<close>, \<^verbatim>\<open>state[i].x = v\<close>, \<^verbatim>\<open>state[i].y = v\<close> and
  \<^verbatim>\<open>state[i].z = v\<close> for \<open>m = 0, 1, 2, 3\<close>: component \<open>i\<close> has to be an SO(3)
  state.
\<close>

definition setattr_quat :: "state \<Rightarrow> nat \<Rightarrow> nat \<Rightarrow> pyval \<Rightarrow> error + state" where
  "setattr_quat st i m v =
     (if i < length st then
        (case st ! i of
           SO3State w x y z \<Rightarrow>
             (case num v of
                Inl e \<Rightarrow> Inl e
              | Inr r \<Rightarrow>
                  Inr (st[i := (if m = 0 then SO3State r x y z
                                else if m = 1 then SO3State w r y z
                                else if m = 2 then SO3State w x r z
                                else SO3State w x y r)]))
         | _ \<Rightarrow> Inl AttributeError)
      else Inl IndexError)"

text \<open>
  \<^verbatim>\<open>
  def readState(self, state):
      simState = self.call('extractState()')
      i = 0
      for obj in simState:
          for j in range(3):
              for k in range(3):
                  state[i][k] = obj[j][k]
              i += 1
          state[i].w = obj[3][0]
          state[i].x = obj[3][1]
          state[i].y = obj[3][2]
          state[i].z = obj[3][3]
          i += 1
  \<close>
  The state is written in place: what was written before an error stays written.
\<close>

text \<open>\<^verbatim>\<open>for k in range(3): state[i][k] = obj[j][k]\<close>.\<close>

fun copy_vec :: "pyval \<Rightarrow> nat \<Rightarrow> nat list \<Rightarrow> nat \<Rightarrow> state \<Rightarrow> (error + unit) \<times> state" where
  "copy_vec obj j [] i st = (Inr (), st)"
| "copy_vec obj j (k # ks) i st =
     (case bindE (getitem obj j) (\<lambda>b. getitem b k) of
        Inl e \<Rightarrow> (Inl e, st)
      | Inr v \<Rightarrow>
          (case setitem_vec st i k v of
             Inl e \<Rightarrow> (Inl e, st)
           | Inr st' \<Rightarrow> copy_vec obj j ks i st'))"

text \<open>\<^verbatim>\<open>for j in range(3): ...; i += 1\<close>.\<close>

fun copy_vecs :: "pyval \<Rightarrow> nat list \<Rightarrow> nat \<Rightarrow> state \<Rightarrow> (error + unit) \<times> nat \<times> state" where
  "copy_vecs obj [] i st = (Inr (), i, st)"
| "copy_vecs obj (j # js) i st =
     (case copy_vec obj j [0, 1, 2] i st of
        (Inl e, st') \<Rightarrow> (Inl e, i, st')
      | (Inr _, st') \<Rightarrow> copy_vecs obj js (i + 1) st')"

text \<open>The four assignments to the quaternion, in the order \<open>w\<close>, \<open>x\<close>, \<open>y\<close>, \<open>z\<close>.\<close>

fun copy_quat :: "pyval \<Rightarrow> nat list \<Rightarrow> nat \<Rightarrow> state \<Rightarrow> (error + unit) \<times> state" where
  "copy_quat obj [] i st = (Inr (), st)"
| "copy_quat obj (m # ms) i st =
     (case bindE (getitem obj 3) (\<lambda>q. getitem q m) of
        Inl e \<Rightarrow> (Inl e, st)
      | Inr v \<Rightarrow>
          (case setattr_quat st i m v of
             Inl e \<Rightarrow> (Inl e, st)
           | Inr st' \<Rightarrow> copy_quat obj ms i st'))"

text \<open>\<^verbatim>\<open>for obj in simState: ...\<close>.\<close>

fun obj_loop :: "pyval list \<Rightarrow> nat \<Rightarrow> state \<Rightarrow> (error + unit) \<times> state" where
  "obj_loop [] i st = (Inr (), st)"
| "obj_loop (obj # objs) i st =
     (case copy_vecs obj [0, 1, 2] i st of
        (Inl e, i', st') \<Rightarrow> (Inl e, st')
      | (Inr _, i', st') \<Rightarrow>
          (case copy_quat obj [0, 1, 2, 3] i' st' of
             (Inl e, st'') \<Rightarrow> (Inl e, st'')
           | (Inr _, st'') \<Rightarrow> obj_loop objs (i' + 1) st''))"

definition readState :: "env \<Rightarrow> state \<Rightarrow> (error + unit) \<times> env \<times> state" where
  "readState e st =
     (case call e ''extractState()'' of
        (Inl err, e') \<Rightarrow> (Inl err, e', st)
      | (Inr simState, e') \<Rightarrow>
          (case py_iter simState of
             Inl err \<Rightarrow> (Inl err, e', st)
           | Inr objs \<Rightarrow>
               (case obj_loop objs 0 st of (r, st') \<Rightarrow> (r, e', st'))))"

subsection \<open>\<^verbatim>\<open>stateToList\<close>\<close>

text \<open>
  \<^verbatim>\<open>
  def stateToList(self, state):
      simState = []
      for i in range(0, self.rigidBodies_*4, 4):
          simState.append((
              (state[i][0], state[i][1], state[i][2]),
              (state[i+1][0], state[i+1][1], state[i+1][2]),
              (state[i+2][0], state[i+2][1], state[i+2][2]),
              (state[i+3].w, state[i+3].x, state[i+3].y, state[i+3].z)
          ))
      return simState
  \<close>
  \<^verbatim>\<open>writeState\<close> sends \<^verbatim>\<open>repr\<close> of this list, with \<^verbatim>\<open>nan\<close> and \<^verbatim>\<open>inf\<close>
  rewritten, to the simulator. The text of a float is not part of this model, so
  \<^verbatim>\<open>writeState\<close> is not either.
\<close>

text \<open>\<^verbatim>\<open>(state[i][0], state[i][1], state[i][2])\<close>.\<close>

definition vec_tuple :: "state \<Rightarrow> nat \<Rightarrow> error + pyval" where
  "vec_tuple st i =
     bindE (bindE (state_get st (int i)) (\<lambda>v. getitem v 0)) (\<lambda>a.
     bindE (bindE (state_get st (int i)) (\<lambda>v. getitem v 1)) (\<lambda>b.
     bindE (bindE (state_get st (int i)) (\<lambda>v. getitem v 2)) (\<lambda>c.
     Inr (PySeq [a, b, c]))))"

text \<open>The tuple appended for the body whose blocks start at \<open>i\<close>.\<close>

definition body_tuple :: "state \<Rightarrow> nat \<Rightarrow> error + pyval" where
  "body_tuple st i =
     bindE (vec_tuple st i) (\<lambda>p.
     bindE (vec_tuple st (i + 1)) (\<lambda>l.
     bindE (vec_tuple st (i + 2)) (\<lambda>a.
     bindE (bindE (state_get st (int (i + 3))) quat_tuple) (\<lambda>q.
     Inr (PySeq [p, l, a, q])))))"

fun body_loop :: "state \<Rightarrow> nat list \<Rightarrow> pyval list \<Rightarrow> error + pyval list" where
  "body_loop st [] simState = Inr simState"
| "body_loop st (i # is) simState =
     (case body_tuple st i of
        Inl e \<Rightarrow> Inl e
      | Inr t \<Rightarrow> body_loop st is (simState @ [t]))"

text \<open>\<^verbatim>\<open>range(0, n*4, 4)\<close> is \<open>0, 4, \<dots>, 4 * (n - 1)\<close>.\<close>

definition stateToList :: "env \<Rightarrow> state \<Rightarrow> error + pyval list" where
  "stateToList e st = body_loop st (map (\<lambda>b. 4 * b) [0..<rigidBodies e]) []"

section \<open>Well-formed values and reference definitions\<close>

text \<open>
  The shapes the simulator and the planner use: a 3-vector, a quaternion as a 4-tuple,
  the entry of one body in a reply of \<^verbatim>\<open>extractState()\<close> or in a goal criterion, and
  the four state components of one body.
\<close>

definition vec3 :: "real \<Rightarrow> real \<Rightarrow> real \<Rightarrow> pyval" where
  "vec3 x y z = PySeq [PyFloat x, PyFloat y, PyFloat z]"

definition quat4 :: "real \<Rightarrow> real \<Rightarrow> real \<Rightarrow> real \<Rightarrow> pyval" where
  "quat4 w x y z = PySeq [PyFloat w, PyFloat x, PyFloat y, PyFloat z]"

type_synonym vec = "real \<times> real \<times> real"
type_synonym quat = "real \<times> real \<times> real \<times> real"
type_synonym body = "vec \<times> vec \<times> vec \<times> quat"

fun body_entry :: "body \<Rightarrow> pyval" where
  "body_entry ((px, py, pz), (lx, ly, lz), (ax, ay, az), (w, x, y, z)) =
     PySeq [vec3 px py pz, vec3 lx ly lz, vec3 ax ay az, quat4 w x y z]"

fun body_blocks :: "body \<Rightarrow> pyval list" where
  "body_blocks ((px, py, pz), (lx, ly, lz), (ax, ay, az), (w, x, y, z)) =
     [vec3 px py pz, vec3 lx ly lz, vec3 ax ay az, SO3State w x y z]"

text \<open>
  The commands the control description asks for, in the words of the specification: one
  command per channel, in the order of the description, each with the slice of the
  control vector that the channel's dimensionality cuts out.
\<close>

fun channel_commands :: "controller list \<Rightarrow> real list \<Rightarrow> nat \<Rightarrow> command list" where
  "channel_commands [] c i = []"
| "channel_commands ((c0, c1, c2) # rest) c i =
     ChannelCommand c0 c1 (slice c i (i + c2)) # channel_commands rest c (i + c2)"

text \<open>The simulator answers the next \<open>n\<close> requests with replies that decode.\<close>

fun is_value :: "reply \<Rightarrow> bool" where
  "is_value (Decodes v) = True"
| "is_value _ = False"

definition answers :: "nat \<Rightarrow> rpc_socket \<Rightarrow> bool" where
  "answers n s = (n \<le> length (replies s) \<and> list_all is_value (take n (replies s)))"

text \<open>
  Sample values: a session with one channel of two control values and two bodies, the
  same session with a simulator that answers sixty requests, and two bodies.
\<close>

definition env0 :: env where
  "env0 = \<lparr>sockS = \<lparr>requests = [], replies = []\<rparr>, sockC = \<lparr>sent = [], budget = None\<rparr>,
     simRunning = True, cdesc = (2, [(''robot'', ''set_speed'', 2)]), con = [0, 0],
     rigidBodies = 2\<rparr>"


definition body0 :: body where
  "body0 = ((0, 0, 0), (0, 0, 0), (0, 0, 0), (1, 0, 0, 0))"

definition body1 :: body where
  "body1 = ((1, 2, 3), (4, 5, 6), (7, 8, 9), (0, 1, 0, 0))"

section \<open>Properties of the goal\<close>

lemmas goal_defs = isSatisfied_Py_def crit_dist_def body_block_def state_get_def
  quat_tuple_def len_def as_int_def dist_Py_def pos_term_def quat_term_def bindE_def
  getitem_def num_def vec3_def quat4_def







text \<open>
  What \<open>isSatisfied_Py\<close> computes when every criterion can be evaluated: the distance
  is the sum of the distances of the criteria, and the threshold is a tenth of the length
  of the last criterion, which is a tuple of a body index and a target.
\<close>

lemma crit_loop_sum:
  "\<forall>c \<in> set cs. \<exists>x. crit_dist st c = Inr x \<Longrightarrow>
   crit_loop st cs d = (None, d + sum_list (map (\<lambda>c. projr (crit_dist st c)) cs))"
  by (induction cs arbitrary: d) (auto simp: add.assoc)

lemma isSatisfied_Py_threshold:
  assumes ne: "criteria g \<noteq> []"
      and ok: "\<forall>c \<in> set (criteria g). \<exists>x. crit_dist st c = Inr x"
      and n: "len (last (criteria g)) = Inr n"
  shows "isSatisfied_Py g st =
     (Inr (sum_list (map (\<lambda>c. projr (crit_dist st c)) (criteria g)) \<le> real n * 0.1),
      g\<lparr>distance := sum_list (map (\<lambda>c. projr (crit_dist st c)) (criteria g))\<rparr>)"
proof -
  have loop: "crit_loop st (criteria g) 0 =
      (None, sum_list (map (\<lambda>c. projr (crit_dist st c)) (criteria g)))"
    using crit_loop_sum [OF ok, of 0] by simp
  from ne obtain c cs where cs: "criteria g = c # cs"
    by (cases "criteria g") auto
  have "(case criteria g of [] \<Rightarrow> a | x # xs \<Rightarrow> b) = b" for a b :: "(error + bool) \<times> goal"
    by (simp add: cs)
  then show ?thesis
    unfolding isSatisfied_Py_def loop by (simp add: n not_less)
qed

text \<open>
  Claim C1. The goal evaluation sums the distances of the criteria and should report
  satisfied exactly when the total is at most 0.1 times the number of criteria. With the
  single criterion "body 0 at \<open>(3/8, 0, 0)\<close>, identity orientation" and body 0 at the
  origin, the total is \<open>9/64\<close>, above \<open>0.1 * 1\<close>, and \<open>isSatisfied_Py\<close> returns
  \<open>True\<close>: it compares with 0.1 times the length of the last criterion, which is 2.
\<close>

theorem isSatisfied_Py_single_criterion:
  "isSatisfied_Py
     \<lparr>criteria = [PySeq [PyInt 0,
        PySeq [vec3 (3 / 8) 0 0, vec3 0 0 0, vec3 0 0 0, quat4 1 0 0 0]]], distance = 0\<rparr>
     [vec3 0 0 0, vec3 0 0 0, vec3 0 0 0, SO3State 1 0 0 0] =
   (Inr True,
    \<lparr>criteria = [PySeq [PyInt 0,
        PySeq [vec3 (3 / 8) 0 0, vec3 0 0 0, vec3 0 0 0, quat4 1 0 0 0]]], distance = 9 / 64\<rparr>)
   \<and> \<not> ((9 / 64 :: real) \<le> 0.1 * real (length [PySeq [PyInt 0,
        PySeq [vec3 (3 / 8) 0 0, vec3 0 0 0, vec3 0 0 0, quat4 1 0 0 0]]]))"
  by (simp add: goal_defs power2_eq_square)

text \<open>
  Claim C10. With no criterion in the list \<open>isSatisfied_Py\<close> returns no result: the
  loop variable read by the threshold comparison was never bound and the call fails with
  \<open>UnboundLocalError\<close>. A call that returns a result had at least one criterion.
\<close>

theorem isSatisfied_Py_no_criteria:
  "isSatisfied_Py (g\<lparr>criteria := []\<rparr>) st =
     (Inl UnboundLocalError, g\<lparr>criteria := [], distance := 0\<rparr>)
   \<and> ((\<exists>b. fst (isSatisfied_Py g st) = Inr b) \<longrightarrow> criteria g \<noteq> [])"
  by (auto simp: isSatisfied_Py_def)

text \<open>
  The theorem at a goal with one criterion that body 0 meets, where a result is returned,
  and at a goal with no criterion.
\<close>

theorem isSatisfied_Py_no_criteria_witness:
  "(\<exists>b. fst (isSatisfied_Py
       \<lparr>criteria = [PySeq [PyInt 0,
          PySeq [vec3 0 0 0, vec3 0 0 0, vec3 0 0 0, quat4 1 0 0 0]]], distance = 0\<rparr>
       [vec3 0 0 0, vec3 0 0 0, vec3 0 0 0, SO3State 1 0 0 0]) = Inr b)
   \<and> criteria \<lparr>criteria = [PySeq [PyInt 0,
          PySeq [vec3 0 0 0, vec3 0 0 0, vec3 0 0 0, quat4 1 0 0 0]]], distance = 0\<rparr> \<noteq> []
   \<and> isSatisfied_Py \<lparr>criteria = [], distance = 7\<rparr>
        [vec3 0 0 0, vec3 0 0 0, vec3 0 0 0, SO3State 1 0 0 0] =
      (Inl UnboundLocalError, \<lparr>criteria = [], distance = 0\<rparr>)"
  using isSatisfied_Py_no_criteria [of "\<lparr>criteria = [PySeq [PyInt 0,
          PySeq [vec3 0 0 0, vec3 0 0 0, vec3 0 0 0, quat4 1 0 0 0]]], distance = 0\<rparr>"
       "[vec3 0 0 0, vec3 0 0 0, vec3 0 0 0, SO3State 1 0 0 0]"]
    isSatisfied_Py_no_criteria [of "\<lparr>criteria = [], distance = 7\<rparr>"
       "[vec3 0 0 0, vec3 0 0 0, vec3 0 0 0, SO3State 1 0 0 0]"]
  by (auto simp: goal_defs)

section \<open>Properties of the environment\<close>

subsection \<open>\<^verbatim>\<open>call\<close>\<close>

text \<open>
  Claim C6. Whatever the command, a transport error in \<open>call\<close> (the send fails, the
  connection is closed or the receive fails, the reply does not decode) is returned to
  the caller as the error and the simulation is marked as not running; a call that
  succeeds returns the decoded value and leaves \<open>simRunning\<close> as it was. The call is
  not retried: at most one request goes out and one step of the simulator's script is
  used.
\<close>

theorem call_transport_error:
  "(\<not> answers 1 (sockS e) \<longrightarrow>
      (\<exists>err. fst (call e cmd) = Inl err) \<and> \<not> simRunning (snd (call e cmd)))
   \<and> (answers 1 (sockS e) \<longrightarrow>
      (\<exists>v. fst (call e cmd) = Inr v) \<and> simRunning (snd (call e cmd)) = simRunning e)
   \<and> length (requests (sockS (snd (call e cmd)))) \<le> Suc (length (requests (sockS e)))
   \<and> length (replies (sockS (snd (call e cmd)))) = length (replies (sockS e)) - 1"
  by (auto simp: call_def exchange_def answers_def split: list.splits reply.splits)

text \<open>
  The theorem at a session whose simulator sends text that does not decode, and at one
  whose simulator answers with the value 1.
\<close>

theorem call_transport_error_witness:
  "\<not> answers 1 (sockS (env0\<lparr>sockS := \<lparr>requests = [], replies = [Undecodable]\<rparr>\<rparr>))
   \<and> fst (call (env0\<lparr>sockS := \<lparr>requests = [], replies = [Undecodable]\<rparr>\<rparr>) ''nextTick()'') =
       Inl SyntaxError
   \<and> \<not> simRunning
         (snd (call (env0\<lparr>sockS := \<lparr>requests = [], replies = [Undecodable]\<rparr>\<rparr>) ''nextTick()''))
   \<and> answers 1 (sockS (env0\<lparr>sockS := \<lparr>requests = [], replies = [Decodes (PyInt 1)]\<rparr>\<rparr>))
   \<and> fst (call (env0\<lparr>sockS := \<lparr>requests = [], replies = [Decodes (PyInt 1)]\<rparr>\<rparr>)
         ''nextTick()'') = Inr (PyInt 1)
   \<and> simRunning
       (snd (call (env0\<lparr>sockS := \<lparr>requests = [], replies = [Decodes (PyInt 1)]\<rparr>\<rparr>)
         ''nextTick()''))"
  using call_transport_error [of "env0\<lparr>sockS := \<lparr>requests = [], replies = [Undecodable]\<rparr>\<rparr>"
      "''nextTick()''"]
    call_transport_error [of "env0\<lparr>sockS := \<lparr>requests = [], replies = [Decodes (PyInt 1)]\<rparr>\<rparr>"
      "''nextTick()''"]
  by (simp add: call_def exchange_def answers_def env0_def)

subsection \<open>\<^verbatim>\<open>worldStep\<close>\<close>










text \<open>Ties go to the even neighbour, and a negative duration gives no tick.\<close>

lemma py_round_ties:
  "py_round 0.5 = 0" "py_round 1.5 = 2" "py_round 2.5 = 2" "py_round (- 0.5) = 0"
  "py_round (- 1.5) = - 2" "nat (py_round (- 1 * 60)) = 0"
  by (simp_all add: py_round_def)





subsection \<open>\<^verbatim>\<open>applyControl\<close>\<close>

lemma length_channel_commands: "length (channel_commands chs c i) = length chs"
  by (induction chs c i rule: channel_commands.induct) auto


text \<open>
  On a control socket that accepts everything the loop sends the commands of the
  description, in order.
\<close>

lemma controller_loop_healthy:
  "budget (sockC e) = None \<Longrightarrow>
   controller_loop chs c i e =
     (Inr (), e\<lparr>sockC := (sockC e)\<lparr>sent := sent (sockC e) @ channel_commands chs c i\<rparr>\<rparr>)"
proof (induction chs c i e rule: controller_loop.induct)
  case (1 c i e)
  then show ?case by simp
next
  case (2 controller rest c i e)
  obtain c0 c1 c2 where ctl: "controller = (c0, c1, c2)"
    by (cases controller) auto
  let ?m = "ChannelCommand c0 c1 (slice c i (i + c2))"
  let ?s = "(sockC e)\<lparr>sent := sent (sockC e) @ [?m]\<rparr>"
  have s: "sendall (sockC e) ?m = Inr ?s"
    using "2.prems" by (simp add: sendall_def)
  have b: "budget (sockC (e\<lparr>sockC := ?s\<rparr>)) = None"
    using "2.prems" by simp
  show ?case
    using "2.IH" [OF ctl [symmetric] refl s b] by (simp add: ctl s)
qed


lemma applyControl_dispatch:
  assumes "con e \<noteq> c" and "budget (sockC e) = None"
  shows "applyControl e c =
     (Inr (), e\<lparr>con := c,
        sockC := (sockC e)\<lparr>sent := sent (sockC e) @ channel_commands (snd (cdesc e)) c 0\<rparr>\<rparr>)"
  using assms controller_loop_healthy [of "e\<lparr>con := c\<rparr>" "snd (cdesc e)" c 0]
  by (simp add: applyControl_def)

lemma applyControl_same: "con e = c \<Longrightarrow> applyControl e c = (Inr (), e)"
  by (simp add: applyControl_def)

text \<open>
  Claim C2, as stated: for every control vector \<open>c\<close>, of two calls of \<open>applyControl\<close>
  in a row with \<open>c\<close> the first sends one command per channel and the second none. It
  fails where \<open>c\<close> is the vector already in the cache: in the sample session, whose cache
  is \<open>[0, 0]\<close> as after initialisation, neither call with \<open>[0, 0]\<close> sends anything,
  while the description has a channel.
\<close>

theorem applyControl_twice_counterexample:
  "sent (sockC (snd (applyControl env0 [0, 0]))) = []
   \<and> sent (sockC (snd (applyControl (snd (applyControl env0 [0, 0])) [0, 0]))) = []
   \<and> channel_commands (snd (cdesc env0)) [0, 0] 0 =
       [ChannelCommand ''robot'' ''set_speed'' [0, 0]]
   \<and> sent (sockC (snd (applyControl env0 [0, 0]))) \<noteq>
       sent (sockC env0) @ channel_commands (snd (cdesc env0)) [0, 0] 0"
  by (simp add: applyControl_def env0_def slice_def)

text \<open>
  Claim C2, amended: for every control vector \<open>c\<close> that differs from the cache, on a
  control socket that accepts the commands, the first call sends one command per channel
  of the description, in its order, each with the slice of \<open>c\<close> the channel's
  dimensionality cuts out, and makes \<open>c\<close> the cache; the second call with \<open>c\<close> sends
  nothing and changes nothing. A call with the vector that is in the cache sends nothing.
\<close>

theorem applyControl_twice:
  assumes "con e \<noteq> c" and "budget (sockC e) = None"
  shows "applyControl e c =
       (Inr (), e\<lparr>con := c,
          sockC := (sockC e)\<lparr>sent := sent (sockC e) @ channel_commands (snd (cdesc e)) c 0\<rparr>\<rparr>)
     \<and> length (channel_commands (snd (cdesc e)) c 0) = length (snd (cdesc e))
     \<and> applyControl (snd (applyControl e c)) c = (Inr (), snd (applyControl e c))
     \<and> applyControl (e\<lparr>con := c\<rparr>) c = (Inr (), e\<lparr>con := c\<rparr>)"
  using applyControl_dispatch [OF assms]
  by (simp add: applyControl_same length_channel_commands)

text \<open>The theorem in the sample session, with the control \<open>[1, 2]\<close>.\<close>

theorem applyControl_twice_witness:
  "con env0 \<noteq> [1, 2] \<and> budget (sockC env0) = None
   \<and> applyControl env0 [1, 2] =
       (Inr (), env0\<lparr>con := [1, 2],
          sockC := \<lparr>sent = [ChannelCommand ''robot'' ''set_speed'' [1, 2]], budget = None\<rparr>\<rparr>)
   \<and> applyControl (snd (applyControl env0 [1, 2])) [1, 2] =
       (Inr (), snd (applyControl env0 [1, 2]))"
  using applyControl_twice [of env0 "[1, 2]"]
  by (simp add: env0_def slice_def applyControl_def sendall_def)

text \<open>
  Claim C4, as stated: a control vector whose length is not the control dimension makes
  \<open>applyControl\<close> fail, with no command sent and the cache unchanged. In the sample
  session the dimension is 2; the call with the vector \<open>[1]\<close> returns normally, sends a
  command with the slice \<open>[1]\<close> and makes \<open>[1]\<close> the cache.
\<close>

theorem applyControl_wrong_length_counterexample:
  "length [1 :: real] \<noteq> fst (cdesc env0)
   \<and> applyControl env0 [1] =
       (Inr (), env0\<lparr>con := [1],
          sockC := \<lparr>sent = [ChannelCommand ''robot'' ''set_speed'' [1]], budget = None\<rparr>\<rparr>)"
  by (simp add: applyControl_def env0_def slice_def sendall_def)

text \<open>
  Claim C4, amended: \<open>applyControl\<close> does not check the length of the control vector.
  With a cache of the control dimension's length, as after initialisation, and a control
  socket that accepts the commands, a vector of another length is handled as any vector
  that differs from the cache: the call returns normally, the vector becomes the cache,
  and one command per channel is sent, each with the slice of the vector, clipped at its
  end.
\<close>

theorem applyControl_wrong_length:
  assumes "length c \<noteq> fst (cdesc e)" and "length (con e) = fst (cdesc e)"
      and "budget (sockC e) = None"
  shows "applyControl e c =
       (Inr (), e\<lparr>con := c,
          sockC := (sockC e)\<lparr>sent := sent (sockC e) @ channel_commands (snd (cdesc e)) c 0\<rparr>\<rparr>)
     \<and> length (channel_commands (snd (cdesc e)) c 0) = length (snd (cdesc e))"
proof -
  from assms(1,2) have "con e \<noteq> c" by auto
  from applyControl_dispatch [OF this assms(3)] show ?thesis
    by (simp add: length_channel_commands)
qed

text \<open>The theorem in the sample session, with the vector \<open>[1]\<close>.\<close>

theorem applyControl_wrong_length_witness:
  "length [1 :: real] \<noteq> fst (cdesc env0) \<and> length (con env0) = fst (cdesc env0)
   \<and> budget (sockC env0) = None
   \<and> sent (sockC (snd (applyControl env0 [1]))) = [ChannelCommand ''robot'' ''set_speed'' [1]]
   \<and> con (snd (applyControl env0 [1])) = [1]"
  using applyControl_wrong_length [of "[1]" env0]
  by (simp add: env0_def slice_def)




subsection \<open>\<^verbatim>\<open>readState\<close>\<close>

lemmas read_defs = setitem_vec_def setattr_quat_def bindE_def getitem_def num_def vec3_def
  quat4_def

lemma body_blocks_length: "length (body_blocks b) = 4"
  by (cases b rule: body_blocks.cases) simp

text \<open>
  One well-formed entry written over the four blocks of one body, with other blocks before
  and after: first the three vectors, then the quaternion.
\<close>

lemma one_body_vecs:
  "copy_vecs (body_entry nb) [0, 1, 2] (length pre) (pre @ body_blocks ob @ rest) =
     (Inr (), length pre + 3, pre @ take 3 (body_blocks nb) @ drop 3 (body_blocks ob) @ rest)"
  by (cases nb rule: body_blocks.cases; cases ob rule: body_blocks.cases)
    (simp add: read_defs nth_append list_update_append)

lemma one_body_quat:
  "copy_quat (body_entry nb) [0, 1, 2, 3] (length pre + 3)
      (pre @ take 3 (body_blocks nb) @ drop 3 (body_blocks ob) @ rest) =
     (Inr (), pre @ body_blocks nb @ rest)"
  by (cases nb rule: body_blocks.cases; cases ob rule: body_blocks.cases)
    (simp add: read_defs nth_append list_update_append)

lemma obj_loop_step:
  "obj_loop (body_entry nb # objs) (length pre) (pre @ body_blocks ob @ rest) =
   obj_loop objs (length (pre @ body_blocks nb)) ((pre @ body_blocks nb) @ rest)"
  by (simp only: obj_loop.simps one_body_vecs one_body_quat prod.case sum.case)
    (simp add: body_blocks_length add.commute)

text \<open>As many entries as there are bodies in the part of the state they are written to.\<close>

lemma obj_loop_bodies:
  "length new = length old \<Longrightarrow>
   obj_loop (map body_entry new) (length pre) (pre @ concat (map body_blocks old) @ rest) =
     (Inr (), pre @ concat (map body_blocks new) @ rest)"
proof (induction new arbitrary: old pre)
  case Nil
  then show ?case by simp
next
  case (Cons nb new)
  then obtain ob old' where old: "old = ob # old'" and len: "length new = length old'"
    by (cases old) auto
  have "obj_loop (map body_entry (nb # new)) (length pre)
          (pre @ concat (map body_blocks old) @ rest) =
        obj_loop (map body_entry new) (length (pre @ body_blocks nb))
          ((pre @ body_blocks nb) @ concat (map body_blocks old') @ rest)"
    using obj_loop_step [of nb "map body_entry new" pre ob "concat (map body_blocks old') @ rest"]
    by (simp add: old)
  also have "\<dots> = (Inr (), (pre @ body_blocks nb) @ concat (map body_blocks new) @ rest)"
    by (rule Cons.IH [OF len])
  finally show ?case by simp
qed

text \<open>An entry for which the state has no block left.\<close>

lemma obj_loop_exhausted:
  "obj_loop (body_entry nb # objs) (length st) st = (Inl IndexError, st)"
  by (cases nb rule: body_blocks.cases) (simp add: read_defs)

text \<open>More entries than the state has bodies.\<close>

lemma obj_loop_too_many:
  "length old < length new \<Longrightarrow>
   obj_loop (map body_entry new) (length pre) (pre @ concat (map body_blocks old)) =
     (Inl IndexError, pre @ concat (map body_blocks (take (length old) new)))"
proof (induction new arbitrary: old pre)
  case Nil
  then show ?case by simp
next
  case (Cons nb new)
  show ?case
  proof (cases old)
    case Nil
    then show ?thesis
      using obj_loop_exhausted [of nb "map body_entry new" pre] by simp
  next
    case (Cons ob old')
    with Cons.prems have len: "length old' < length new"
      by simp
    have "obj_loop (map body_entry (nb # new)) (length pre)
            (pre @ concat (map body_blocks old)) =
        obj_loop (map body_entry new) (length (pre @ body_blocks nb))
          ((pre @ body_blocks nb) @ concat (map body_blocks old'))"
      using obj_loop_step [of nb "map body_entry new" pre ob "concat (map body_blocks old')"]
      by (simp add: Cons)
    also have "\<dots> = (Inl IndexError,
        (pre @ body_blocks nb) @ concat (map body_blocks (take (length old') new)))"
      by (rule Cons.IH [OF len])
    finally show ?thesis
      by (simp add: Cons)
  qed
qed

lemma readState_reply:
  "replies (sockS e) = Decodes (PySeq objs) # rs \<Longrightarrow>
   readState e st =
     (fst (obj_loop objs 0 st),
      e\<lparr>sockS := (sockS e)\<lparr>requests := requests (sockS e) @ [''extractState()''],
                            replies := rs\<rparr>\<rparr>,
      snd (obj_loop objs 0 st))"
  by (simp add: readState_def call_def exchange_def py_iter_def split: prod.splits)

text \<open>
  Claim C9, as stated: a reply whose number of body entries is not the body count of the
  session makes \<open>readState\<close> fail instead of writing a partial state. In the sample
  session of two bodies, a reply with the entry of one body makes \<open>readState\<close> return
  normally: the blocks of the first body are overwritten, those of the second are left.
\<close>

theorem readState_unchecked_counterexample:
  "length (body_blocks body0 @ body_blocks body0) = 4 * rigidBodies env0
   \<and> readState (env0\<lparr>sockS := \<lparr>requests = [], replies = [Decodes (PySeq [body_entry body1])]\<rparr>\<rparr>)
       (body_blocks body0 @ body_blocks body0) =
     (Inr (),
      env0\<lparr>sockS := \<lparr>requests = [''extractState()''], replies = []\<rparr>\<rparr>,
      body_blocks body1 @ body_blocks body0)"
  by (simp add: readState_def call_def exchange_def py_iter_def env0_def body0_def body1_def
      read_defs)

text \<open>
  Claim C9, amended: \<open>readState\<close> does not compare the reply with the body count. For
  a reply of well-formed body entries (3, 3, 3 and 4 values) and a state with blocks for at
  least as many bodies as the reply has entries, \<open>readState\<close> returns normally: the
  blocks of the leading bodies hold the values of the entries and the remaining blocks are
  unchanged. A reply with fewer entries than the session has bodies so writes a partial
  state without an error.
\<close>

theorem readState_unchecked:
  assumes "replies (sockS e) = Decodes (PySeq (map body_entry new)) # rs"
      and "length new = length old"
  shows "readState e (concat (map body_blocks old) @ rest) =
     (Inr (),
      e\<lparr>sockS := (sockS e)\<lparr>requests := requests (sockS e) @ [''extractState()''],
                            replies := rs\<rparr>\<rparr>,
      concat (map body_blocks new) @ rest)"
  using obj_loop_bodies [of new old "[]" rest, OF assms(2)]
  by (simp add: readState_reply [OF assms(1)])

text \<open>
  The theorem at a reply with the entry of one body, read into a state of two bodies: the
  second body keeps its blocks.
\<close>

theorem readState_unchecked_witness:
  "replies (sockS (env0\<lparr>sockS :=
       \<lparr>requests = [], replies = [Decodes (PySeq (map body_entry [body1]))]\<rparr>\<rparr>)) =
     Decodes (PySeq (map body_entry [body1])) # []
   \<and> length [body1] = length [body0]
   \<and> readState (env0\<lparr>sockS :=
         \<lparr>requests = [], replies = [Decodes (PySeq (map body_entry [body1]))]\<rparr>\<rparr>)
       (concat (map body_blocks [body0]) @ body_blocks body0) =
     (Inr (),
      env0\<lparr>sockS := \<lparr>requests = [''extractState()''], replies = []\<rparr>\<rparr>,
      concat (map body_blocks [body1]) @ body_blocks body0)"
  using readState_unchecked [of "env0\<lparr>sockS :=
        \<lparr>requests = [], replies = [Decodes (PySeq (map body_entry [body1]))]\<rparr>\<rparr>"
      "[body1]" "[]" "[body0]" "body_blocks body0"]
  by (simp add: env0_def)

text \<open>
  With more entries than the state has bodies the blocks of every body are overwritten
  with the leading entries before the write to a block that does not exist, which is an
  \<open>IndexError\<close> in this model.
\<close>

lemma readState_too_many:
  assumes "replies (sockS e) = Decodes (PySeq (map body_entry new)) # rs"
      and "length old < length new"
  shows "readState e (concat (map body_blocks old)) =
     (Inl IndexError,
      e\<lparr>sockS := (sockS e)\<lparr>requests := requests (sockS e) @ [''extractState()''],
                            replies := rs\<rparr>\<rparr>,
      concat (map body_blocks (take (length old) new)))"
  using obj_loop_too_many [of old new "[]", OF assms(2)]
  by (simp add: readState_reply [OF assms(1)])

subsection \<open>\<^verbatim>\<open>stateToList\<close> and \<^verbatim>\<open>readState\<close>\<close>

lemma state_get_int:
  "state_get st (int i) = (if i < length st then Inr (st ! i) else Inl IndexError)"
  by (simp add: state_get_def)

lemma body_tuple_blocks:
  "body_tuple (pre @ body_blocks b @ rest) (length pre) = Inr (body_entry b)"
proof (cases b rule: body_blocks.cases)
  case (1 px py pz lx ly lz ax ay az w x y z)
  show ?thesis
    unfolding body_tuple_def vec_tuple_def state_get_int
    by (simp add: 1 quat_tuple_def bindE_def getitem_def vec3_def quat4_def nth_append)
qed

lemma body_loop_blocks:
  "body_loop (pre @ concat (map body_blocks bs) @ rest)
      (map (\<lambda>b. length pre + 4 * b) [0..<length bs]) acc = Inr (acc @ map body_entry bs)"
proof (induction bs arbitrary: pre acc)
  case Nil
  then show ?case by simp
next
  case (Cons b bs)
  have idx: "map (\<lambda>k. length pre + 4 * k) [0..<length (b # bs)] =
      length pre # map (\<lambda>k. length (pre @ body_blocks b) + 4 * k) [0..<length bs]"
    by (simp add: upt_rec [of 0] map_Suc_upt [symmetric] body_blocks_length del: upt_Suc)
  have t: "body_tuple (pre @ concat (map body_blocks (b # bs)) @ rest) (length pre) =
      Inr (body_entry b)"
    using body_tuple_blocks [of pre b "concat (map body_blocks bs) @ rest"] by simp
  have "body_loop (pre @ concat (map body_blocks (b # bs)) @ rest)
      (map (\<lambda>k. length pre + 4 * k) [0..<length (b # bs)]) acc =
      body_loop ((pre @ body_blocks b) @ concat (map body_blocks bs) @ rest)
        (map (\<lambda>k. length (pre @ body_blocks b) + 4 * k) [0..<length bs])
        (acc @ [body_entry b])"
    by (simp only: idx body_loop.simps t sum.case) simp
  also have "\<dots> = Inr ((acc @ [body_entry b]) @ map body_entry bs)"
    by (rule Cons.IH)
  finally show ?case by simp
qed

text \<open>
  On a state in the layout of four blocks per body \<open>stateToList\<close> returns one
  well-formed entry per body.
\<close>

lemma stateToList_blocks:
  "rigidBodies e = length bs \<Longrightarrow>
   stateToList e (concat (map body_blocks bs)) = Inr (map body_entry bs)"
  using body_loop_blocks [of "[]" bs "[]" "[]"] by (simp add: stateToList_def)

text \<open>
  The two directions of the state codec agree on the values: when the simulator replies
  with the list \<open>stateToList\<close> makes from a state, \<open>readState\<close> writes that state. The
  text in between (the \<^verbatim>\<open>repr\<close> of the list, the rewriting of \<^verbatim>\<open>nan\<close> and
  \<^verbatim>\<open>inf\<close>, the decoding of the text) is not covered.
\<close>

lemma readState_stateToList:
  assumes "rigidBodies e = length bs"
      and "stateToList e (concat (map body_blocks bs)) = Inr entries"
      and "replies (sockS e) = Decodes (PySeq entries) # rs"
      and "length old = length bs"
  shows "readState e (concat (map body_blocks old)) =
     (Inr (),
      e\<lparr>sockS := (sockS e)\<lparr>requests := requests (sockS e) @ [''extractState()''],
                            replies := rs\<rparr>\<rparr>,
      concat (map body_blocks bs))"
proof -
  from assms(1,2) have entries: "entries = map body_entry bs"
    by (simp add: stateToList_blocks)
  from assms(4) have len: "length bs = length old"
    by simp
  show ?thesis
    using obj_loop_bodies [of bs old "[]" "[]", OF len]
    by (simp add: readState_reply [OF assms(3)] entries)
qed

end
